theory Spec2Isabelle
  imports Main "HOL-Library.AList"
begin

section \<open>Strings and bytes\<close>

text \<open>
  A Go string is a sequence of bytes: \<open>string\<close> here. The index functions return
  \<open>None\<close> where Go returns \<open>-1\<close>.
\<close>

definition byte :: "char \<Rightarrow> nat" where
  "byte c = of_char c"

fun IndexByte :: "string \<Rightarrow> char \<Rightarrow> nat option" where
  "IndexByte [] c = None"
| "IndexByte (x # xs) c = (if x = c then Some 0 else map_option Suc (IndexByte xs c))"

definition LastIndexByte :: "string \<Rightarrow> char \<Rightarrow> nat option" where
  "LastIndexByte s c = map_option (\<lambda>j. length s - Suc j) (IndexByte (rev s) c)"

definition isLower :: "char \<Rightarrow> bool" where
  "isLower c = (97 \<le> byte c \<and> byte c \<le> 122)"

definition isUpper :: "char \<Rightarrow> bool" where
  "isUpper c = (65 \<le> byte c \<and> byte c \<le> 90)"

text \<open>\<open>strings.Join(elems, sep)\<close>.\<close>

fun Join :: "string list \<Rightarrow> string \<Rightarrow> string" where
  "Join [] sep = []"
| "Join [x] sep = x"
| "Join (x # y # ys) sep = x @ sep @ Join (y # ys) sep"

section \<open>Errors\<close>

text \<open>
  The errors the handler can meet: a \<open>*net.AddrError\<close> (fields \<open>Err\<close> and \<open>Addr\<close>) from
  \<open>net.SplitHostPort\<close>, and errors that are only a message (the error of
  \<open>http2.ConfigureTransport\<close>, and whatever the outbound call reports). \<open>Error\<close> is the
  method \<open>Error()\<close>, the text that \<open>fmt.Fprintln(w, err)\<close> prints.
\<close>

datatype error = AddrError string string | errorString string

fun Error :: "error \<Rightarrow> string" where
  "Error (AddrError err addr) = (if addr \<noteq> [] then ''address '' @ addr @ '': '' @ err else err)"
| "Error (errorString s) = s"

section \<open>url.Parse\<close>

text \<open>
  \<open>url.Parse\<close> of \<open>net/url\<close> (as of Go 1.22), for the fields of \<open>url.URL\<close> below. The
  fields \<open>User\<close>, \<open>RawPath\<close>, \<open>RawFragment\<close>, \<open>ForceQuery\<close> and \<open>OmitHost\<close> are not kept
  (the user information is still checked, since it can make the parse fail). The errors
  are kept as values: their texts are never printed by the proxy.
\<close>

record URL =
  url_Scheme :: string
  url_Opaque :: string
  url_Host :: string
  url_Path :: string
  url_RawQuery :: string
  url_Fragment :: string






















definition emptyURL :: URL where
  "emptyURL = \<lparr>url_Scheme = [], url_Opaque = [], url_Host = [], url_Path = [], url_RawQuery = [],
     url_Fragment = []\<rparr>"




section \<open>net.SplitHostPort\<close>

definition missingPort :: string where
  "missingPort = ''missing port in address''"

definition tooManyColons :: string where
  "tooManyColons = ''too many colons in address''"

text \<open>
  The last two checks of \<open>SplitHostPort\<close>: no \<open>[\<close> from position \<open>j\<close> on, no \<open>]\<close> from
  position \<open>k\<close> on; then the port is what follows the last colon, at position \<open>i\<close>.
\<close>

definition splitTail ::
  "string \<Rightarrow> string \<Rightarrow> nat \<Rightarrow> nat \<Rightarrow> nat \<Rightarrow> error + (string \<times> string)" where
  "splitTail hostport host i j k =
     (if IndexByte (drop j hostport) (CHR ''['') \<noteq> None
        then Inl (AddrError (''unexpected '' @ [CHR 0x27, CHR ''['', CHR 0x27] @ '' in address'') hostport)
      else if IndexByte (drop k hostport) (CHR '']'') \<noteq> None
        then Inl (AddrError (''unexpected '' @ [CHR 0x27, CHR '']'', CHR 0x27] @ '' in address'') hostport)
      else Inr (host, drop (Suc i) hostport))"

definition SplitHostPort :: "string \<Rightarrow> error + (string \<times> string)" where
  "SplitHostPort hostport =
     (case LastIndexByte hostport (CHR '':'') of
        None \<Rightarrow> Inl (AddrError missingPort hostport)
      | Some i \<Rightarrow>
          if take 1 hostport = ''[''
          then (case IndexByte hostport (CHR '']'') of
                  None \<Rightarrow> Inl (AddrError (''missing '' @ [CHR 0x27, CHR '']'', CHR 0x27] @ '' in address'') hostport)
                | Some e \<Rightarrow>
                    if Suc e = length hostport then Inl (AddrError missingPort hostport)
                    else if Suc e = i then splitTail hostport (take (e - 1) (drop 1 hostport)) i 1 (Suc e)
                    else if hostport ! Suc e = CHR '':'' then Inl (AddrError tooManyColons hostport)
                    else Inl (AddrError missingPort hostport))
          else if IndexByte (take i hostport) (CHR '':'') \<noteq> None
               then Inl (AddrError tooManyColons hostport)
               else splitTail hostport (take i hostport) i 0 0)"

section \<open>http.Header\<close>

text \<open>
  \<open>http.Header\<close> is \<open>map[string][]string\<close>. It is an association list here, with
  distinct keys where it stands for a Go map: the order of the list is the order in
  which a \<open>range\<close> loop visits the keys, which Go leaves unspecified, so a statement
  about every list is a statement about every order. \<open>map_of\<close> is the lookup.
\<close>

type_synonym Header = "(string \<times> string list) list"

text \<open>
  \<open>textproto.CanonicalMIMEHeaderKey\<close>: a key of valid header field bytes gets an upper
  case letter first and after each dash, and lower case letters elsewhere; any other key
  is returned as it is. (The table of common headers that the function consults last
  returns the same string.)
\<close>

definition validHeaderFieldByte :: "char \<Rightarrow> bool" where
  "validHeaderFieldByte c =
     ((48 \<le> byte c \<and> byte c \<le> 57) \<or> (97 \<le> byte c \<and> byte c \<le> 122) \<or> (65 \<le> byte c \<and> byte c \<le> 90) \<or>
      byte c \<in> {33, 35, 36, 37, 38, 39, 42, 43, 45, 46, 94, 95, 96, 124, 126})"

fun canonLoop :: "bool \<Rightarrow> string \<Rightarrow> string" where
  "canonLoop upper [] = []"
| "canonLoop upper (c # cs) =
     (let c' = (if upper \<and> isLower c then char_of (byte c - 32)
                else if \<not> upper \<and> isUpper c then char_of (byte c + 32)
                else c)
      in c' # canonLoop (c' = CHR ''-'') cs)"

definition canonicalMIMEHeaderKey :: "string \<Rightarrow> string" where
  "canonicalMIMEHeaderKey a =
     (if a = [] then []
      else if list_ex (\<lambda>c. \<not> validHeaderFieldByte c \<and> c \<noteq> CHR '' '') a then a
      else if list_ex (\<lambda>c. \<not> validHeaderFieldByte c) a then a
      else canonLoop True a)"

fun quickCheck :: "string \<Rightarrow> bool \<Rightarrow> string \<Rightarrow> string" where
  "quickCheck s upper [] = s"
| "quickCheck s upper (c # cs) =
     (if \<not> validHeaderFieldByte c then s
      else if upper \<and> isLower c then canonicalMIMEHeaderKey s
      else if \<not> upper \<and> isUpper c then canonicalMIMEHeaderKey s
      else quickCheck s (c = CHR ''-'') cs)"

definition CanonicalMIMEHeaderKey :: "string \<Rightarrow> string" where
  "CanonicalMIMEHeaderKey s = quickCheck s True s"

text \<open>\<open>h.Set(key, value)\<close>: the canonical key now has the single value.\<close>

definition Header_Set :: "Header \<Rightarrow> string \<Rightarrow> string \<Rightarrow> Header" where
  "Header_Set h key val = AList.update (CanonicalMIMEHeaderKey key) [val] h"

section \<open>http.ResponseWriter\<close>

text \<open>
  The response sink, as \<open>httptest.ResponseRecorder\<close> implements the interface:
  \<open>w_HeaderMap\<close> is the map that \<open>w.Header()\<close> returns, \<open>WriteHeader\<close> records the status
  code and a snapshot of that map (the headers of the response; later changes of the map
  are not part of them), and only the first \<open>WriteHeader\<close> counts. \<open>w_calls\<close> is the
  sequence of calls made on the sink, oldest first. A status code is taken as the sink
  accepts it; the sink's sniffing of a content type on a \<open>Write\<close> with no \<open>WriteHeader\<close>
  before it is left out (the handler always writes the status code first). The goroutine
  that calls \<open>Flush\<close> every 10 ms runs beside the handler and is not part of the model.
\<close>

datatype call = SetCall string string | WriteHeaderCall int | WriteCall string

record ResponseWriter =
  w_HeaderMap :: Header
  w_wroteHeader :: bool
  w_Code :: int
  w_snapHeader :: Header
  w_Body :: string
  w_calls :: "call list"

definition NewRecorder :: ResponseWriter where
  "NewRecorder = \<lparr>w_HeaderMap = [], w_wroteHeader = False, w_Code = 200, w_snapHeader = [],
     w_Body = [], w_calls = []\<rparr>"

definition w_Set :: "ResponseWriter \<Rightarrow> string \<Rightarrow> string \<Rightarrow> ResponseWriter" where
  "w_Set w key val =
     w\<lparr>w_HeaderMap := Header_Set (w_HeaderMap w) key val, w_calls := w_calls w @ [SetCall key val]\<rparr>"

definition WriteHeader :: "ResponseWriter \<Rightarrow> int \<Rightarrow> ResponseWriter" where
  "WriteHeader w code =
     (if w_wroteHeader w then w\<lparr>w_calls := w_calls w @ [WriteHeaderCall code]\<rparr>
      else w\<lparr>w_Code := code, w_wroteHeader := True, w_snapHeader := w_HeaderMap w,
             w_calls := w_calls w @ [WriteHeaderCall code]\<rparr>)"

definition Write :: "ResponseWriter \<Rightarrow> string \<Rightarrow> ResponseWriter" where
  "Write w buf =
     (let w1 = (if w_wroteHeader w then w
                else w\<lparr>w_Code := 200, w_wroteHeader := True, w_snapHeader := w_HeaderMap w\<rparr>)
      in w1\<lparr>w_Body := w_Body w1 @ buf, w_calls := w_calls w1 @ [WriteCall buf]\<rparr>)"

text \<open>\<open>fmt.Fprintln(w, err)\<close>: one \<open>Write\<close> of the error's text and a newline.\<close>

definition Fprintln :: "ResponseWriter \<Rightarrow> error \<Rightarrow> ResponseWriter" where
  "Fprintln w err = Write w (Error err @ [CHR 0x0A])"

text \<open>
  The nested loop of the handler, \<open>for key, values := range src { for _, val := range
  values { w.Header().Set(key, val) } }\<close>.
\<close>

definition rangeSet :: "Header \<Rightarrow> ResponseWriter \<Rightarrow> ResponseWriter" where
  "rangeSet src w = fold (\<lambda>(key, values) w'. fold (\<lambda>val w''. w_Set w'' key val) values w') src w"

section \<open>Requests, responses and the client\<close>

record Request =
  req_Method :: string
  req_URL :: URL
  req_ProtoMajor :: int
  req_Header :: Header
  req_Body :: string
  req_Host :: string
  req_RequestURI :: string
  req_RemoteAddr :: string

text \<open>
  The body of an upstream response is read in chunks. When the reader reaches the end of
  the body, the trailer fields that the upstream sent after it are merged into
  \<open>resp.Trailer\<close>, which until then holds the declared trailer names, each with no value.
  A read that fails before the end is a body with the chunks read so far and no trailer
  fields (the handler ignores the error of \<open>io.Copy\<close>).
\<close>

record Body =
  body_chunks :: "string list"
  body_trailer :: Header

record Response =
  resp_StatusCode :: int
  resp_Header :: Header
  resp_Body :: Body
  resp_Trailer :: Header

definition mergeSetHeader :: "Header \<Rightarrow> Header \<Rightarrow> Header" where
  "mergeSetHeader dst src =
     (if dst = [] then src else fold (\<lambda>(k, vv) d. AList.update k vv d) src dst)"

text \<open>\<open>io.Copy(w, resp.Body)\<close>: every chunk is written to the sink; the response is
  returned with its trailer as it stands after the body.\<close>

definition io_Copy :: "ResponseWriter \<Rightarrow> Response \<Rightarrow> ResponseWriter \<times> Response" where
  "io_Copy w resp =
     (fold (\<lambda>chunk w'. Write w' chunk) (body_chunks (resp_Body resp)) w,
      resp\<lparr>resp_Trailer := mergeSetHeader (resp_Trailer resp) (body_trailer (resp_Body resp))\<rparr>)"

text \<open>
  The client that \<open>New\<close> builds. Durations are nanoseconds. \<open>t_altProto_https\<close> says
  whether a round tripper is registered for the scheme \<open>https\<close>, which is what
  \<open>http2.ConfigureTransport\<close> does first: \<open>RegisterProtocol\<close> panics when the scheme is
  registered already, and \<open>ConfigureTransport\<close> returns that panic as its error, leaving
  the transport as it was.
\<close>

definition Second :: int where
  "Second = 1000000000"

record Transport =
  t_DialTimeout :: int
  t_TLSHandshakeTimeout :: int
  t_ResponseHeaderTimeout :: int
  t_InsecureSkipVerify :: bool
  t_NextProtos :: "string list"
  t_altProto_https :: bool

record Client =
  c_Timeout :: int
  c_Transport :: Transport

definition ConfigureTransport :: "Transport \<Rightarrow> error + Transport" where
  "ConfigureTransport t1 =
     (if t_altProto_https t1 then Inl (errorString ''protocol https already registered'')
      else
        let np1 = (if ''h2'' \<in> set (t_NextProtos t1) then t_NextProtos t1 else ''h2'' # t_NextProtos t1);
            np2 = (if ''http/1.1'' \<in> set np1 then np1 else np1 @ [''http/1.1''])
        in Inr (t1\<lparr>t_altProto_https := True, t_NextProtos := np2\<rparr>))"

section \<open>The proxy\<close>

record Proxy =
  p_Host :: URL
  p_Client :: Client



definition StatusInternalServerError :: int where
  "StatusInternalServerError = 500"

text \<open>
  What one call of \<open>ServeHTTP\<close> leaves behind: the proxy (the handler changes the
  transport of its client), the sink, the request (the handler changes it in place), and
  the requests handed to \<open>p.Client.Do\<close>, in order.
\<close>

record exchange =
  ex_p :: Proxy
  ex_w :: ResponseWriter
  ex_r :: Request
  ex_sent :: "Request list"

text \<open>The three error exits of the handler: status 500, then the error's text.\<close>

definition internal :: "ResponseWriter \<Rightarrow> error \<Rightarrow> ResponseWriter" where
  "internal w err = Fprintln (WriteHeader w StatusInternalServerError) err"

text \<open>Lines 83 to 121 of the handler: what it does with the upstream's response.\<close>

definition relay :: "ResponseWriter \<Rightarrow> Response \<Rightarrow> ResponseWriter" where
  "relay w resp =
     (let w1 = rangeSet (resp_Header resp) w;
          trailerKeys = map fst (resp_Trailer resp);
          w2 = w_Set w1 ''Trailer'' (Join trailerKeys '','');
          w3 = WriteHeader w2 (resp_StatusCode resp);
          (w4, resp') = io_Copy w3 resp
      in rangeSet (resp_Trailer resp') w4)"

text \<open>
  \<open>ServeHTTP\<close>. The outbound call \<open>p.Client.Do\<close> is the parameter \<open>Do\<close>: what the
  upstream and the network between answer to a request sent with a client.
\<close>

definition ServeHTTP ::
  "(Client \<Rightarrow> Request \<Rightarrow> error + Response) \<Rightarrow> Proxy \<Rightarrow> ResponseWriter \<Rightarrow> Request \<Rightarrow> exchange" where
  "ServeHTTP Do p w r =
     (let r1 = r\<lparr>req_Host := url_Host (p_Host p)\<rparr>;
          r2 = r1\<lparr>req_URL := (req_URL r1)\<lparr>url_Host := url_Host (p_Host p)\<rparr>\<rparr>;
          r3 = r2\<lparr>req_URL := (req_URL r2)\<lparr>url_Scheme := url_Scheme (p_Host p)\<rparr>\<rparr>;
          r4 = r3\<lparr>req_RequestURI := []\<rparr>
      in case SplitHostPort (req_RemoteAddr r4) of
           Inl err \<Rightarrow> \<lparr>ex_p = p, ex_w = internal w err, ex_r = r4, ex_sent = []\<rparr>
         | Inr (ip, port) \<Rightarrow>
             (let r5 = r4\<lparr>req_Header := Header_Set (req_Header r4) ''X-Forwarded-For'' ip\<rparr>
              in case (if req_ProtoMajor r5 = 2 then ConfigureTransport (c_Transport (p_Client p))
                       else Inr (c_Transport (p_Client p))) of
                   Inl err \<Rightarrow> \<lparr>ex_p = p, ex_w = internal w err, ex_r = r5, ex_sent = []\<rparr>
                 | Inr t \<Rightarrow>
                     (let p' = p\<lparr>p_Client := (p_Client p)\<lparr>c_Transport := t\<rparr>\<rparr>
                      in case Do (p_Client p') r5 of
                           Inl err \<Rightarrow> \<lparr>ex_p = p', ex_w = internal w err, ex_r = r5, ex_sent = [r5]\<rparr>
                         | Inr resp \<Rightarrow> \<lparr>ex_p = p', ex_w = relay w resp, ex_r = r5, ex_sent = [r5]\<rparr>)))"

section \<open>Notions used in the statements\<close>

text \<open>The calls that the nested loop makes for a header map, in order.\<close>

definition setCalls :: "Header \<Rightarrow> call list" where
  "setCalls H = concat (map (\<lambda>(key, values). map (SetCall key) values) H)"

text \<open>The nested loop on the header map alone.\<close>

definition copyInto :: "Header \<Rightarrow> Header \<Rightarrow> Header" where
  "copyInto src h = fold (\<lambda>(key, values) h'. fold (\<lambda>val h''. Header_Set h'' key val) values h') src h"


text \<open>Lines 66 to 73 of the handler: the proxy as the outbound call finds it, or the
  error of \<open>ConfigureTransport\<close>.\<close>

definition upgraded :: "Proxy \<Rightarrow> Request \<Rightarrow> error + Proxy" where
  "upgraded p r =
     (if req_ProtoMajor r = 2
      then (case ConfigureTransport (c_Transport (p_Client p)) of
              Inl err \<Rightarrow> Inl err
            | Inr t \<Rightarrow> Inr (p\<lparr>p_Client := (p_Client p)\<lparr>c_Transport := t\<rparr>\<rparr>))
      else Inr p)"

text \<open>Lines 52 to 64 of the handler: the request with the upstream's host and scheme, no
  request URI, and the caller's address \<open>ip\<close> as its \<open>X-Forwarded-For\<close> header.\<close>

definition forwarded :: "Proxy \<Rightarrow> Request \<Rightarrow> string \<Rightarrow> Request" where
  "forwarded p r ip =
     r\<lparr>req_Host := url_Host (p_Host p),
       req_URL := (req_URL r)\<lparr>url_Host := url_Host (p_Host p), url_Scheme := url_Scheme (p_Host p)\<rparr>,
       req_RequestURI := [],
       req_Header := Header_Set (req_Header r) ''X-Forwarded-For'' ip\<rparr>"

section \<open>Sample values\<close>

text \<open>
  The proxy of \<open>New "http://127.0.0.1:9000"\<close>; a request as \<open>httptest.NewRequest\<close> makes
  it, with a forwarded-for header of its own, over HTTP/1.1 and over HTTP/2; the proxy
  once an HTTP/2 request has configured its transport; an upstream that answers 201 with
  two headers, a body and a trailer, one that cannot be reached, and a response with a
  fixed length and a \<open>Trailer\<close> header (which \<open>net/http\<close> then leaves among the headers and
  does not move to \<open>resp.Trailer\<close>).
\<close>

definition sample_proxy :: Proxy where
  "sample_proxy =
     \<lparr>p_Host = emptyURL\<lparr>url_Scheme := ''http'', url_Host := ''127.0.0.1:9000''\<rparr>,
      p_Client = \<lparr>c_Timeout = Second * 5,
        c_Transport = \<lparr>t_DialTimeout = Second, t_TLSHandshakeTimeout = Second,
          t_ResponseHeaderTimeout = Second, t_InsecureSkipVerify = True,
          t_NextProtos = [], t_altProto_https = False\<rparr>\<rparr>\<rparr>"

definition sample_request :: Request where
  "sample_request =
     \<lparr>req_Method = ''GET'', req_URL = emptyURL\<lparr>url_Path := ''/''\<rparr>, req_ProtoMajor = 1,
      req_Header = [(''Test-Header-1'', [''1'']), (''X-Forwarded-For'', [''10.0.0.7''])],
      req_Body = [], req_Host = ''example.com'', req_RequestURI = ''/'',
      req_RemoteAddr = ''192.0.2.1:1234''\<rparr>"

definition sample_request_h2 :: Request where
  "sample_request_h2 = sample_request\<lparr>req_ProtoMajor := 2\<rparr>"

definition sample_proxy_h2 :: Proxy where
  "sample_proxy_h2 =
     sample_proxy\<lparr>p_Client := (p_Client sample_proxy)\<lparr>c_Transport :=
       (c_Transport (p_Client sample_proxy))\<lparr>t_altProto_https := True, t_NextProtos := [''h2'', ''http/1.1'']\<rparr>\<rparr>\<rparr>"

definition sample_response :: Response where
  "sample_response =
     \<lparr>resp_StatusCode = 201,
      resp_Header = [(''Response-Header-1'', [''1'']), (''X'', [''1'', ''2''])],
      resp_Body = \<lparr>body_chunks = [''Hello World!''], body_trailer = [(''X-Trailer'', [''X-Value''])]\<rparr>,
      resp_Trailer = [(''X-Trailer'', [])]\<rparr>"


definition sample_Do :: "Client \<Rightarrow> Request \<Rightarrow> error + Response" where
  "sample_Do c q = Inr sample_response"


section \<open>The sink and the relay\<close>

lemma w_Set_simps:
  "w_wroteHeader (w_Set w k v) = w_wroteHeader w"
  "w_Code (w_Set w k v) = w_Code w"
  "w_snapHeader (w_Set w k v) = w_snapHeader w"
  "w_Body (w_Set w k v) = w_Body w"
  "w_calls (w_Set w k v) = w_calls w @ [SetCall k v]"
  "w_HeaderMap (w_Set w k v) = Header_Set (w_HeaderMap w) k v"
  by (simp_all add: w_Set_def)

lemma inner_Set:
  "w_wroteHeader (fold (\<lambda>val w'. w_Set w' k val) vs w) = w_wroteHeader w"
  "w_Code (fold (\<lambda>val w'. w_Set w' k val) vs w) = w_Code w"
  "w_snapHeader (fold (\<lambda>val w'. w_Set w' k val) vs w) = w_snapHeader w"
  "w_Body (fold (\<lambda>val w'. w_Set w' k val) vs w) = w_Body w"
  "w_calls (fold (\<lambda>val w'. w_Set w' k val) vs w) = w_calls w @ map (SetCall k) vs"
  "w_HeaderMap (fold (\<lambda>val w'. w_Set w' k val) vs w) = fold (\<lambda>val h. Header_Set h k val) vs (w_HeaderMap w)"
  by (induction vs arbitrary: w; simp add: w_Set_simps)+

lemma rangeSet_simps:
  "w_wroteHeader (rangeSet H w) = w_wroteHeader w"
  "w_Code (rangeSet H w) = w_Code w"
  "w_snapHeader (rangeSet H w) = w_snapHeader w"
  "w_Body (rangeSet H w) = w_Body w"
  "w_calls (rangeSet H w) = w_calls w @ setCalls H"
  "w_HeaderMap (rangeSet H w) = copyInto H (w_HeaderMap w)"
  unfolding rangeSet_def setCalls_def copyInto_def
  by (induction H arbitrary: w; simp add: inner_Set split: prod.splits)+

lemma WriteHeader_fresh:
  "\<not> w_wroteHeader w \<Longrightarrow> WriteHeader w code =
     w\<lparr>w_Code := code, w_wroteHeader := True, w_snapHeader := w_HeaderMap w,
       w_calls := w_calls w @ [WriteHeaderCall code]\<rparr>"
  by (simp add: WriteHeader_def)

lemma WriteHeader_wrote: "w_wroteHeader (WriteHeader w code)"
  by (simp add: WriteHeader_def)

lemma Write_wrote:
  "w_wroteHeader w \<Longrightarrow> Write w buf = w\<lparr>w_Body := w_Body w @ buf, w_calls := w_calls w @ [WriteCall buf]\<rparr>"
  by (simp add: Write_def)

lemma copy_chunks:
  "w_wroteHeader w \<Longrightarrow>
   fold (\<lambda>chunk w'. Write w' chunk) cs w =
     w\<lparr>w_Body := w_Body w @ concat cs, w_calls := w_calls w @ map WriteCall cs\<rparr>"
  by (induction cs arbitrary: w) (simp_all add: Write_wrote)



lemma relay_Code: "\<not> w_wroteHeader w \<Longrightarrow> w_Code (relay w resp) = resp_StatusCode resp"
  by (simp add: relay_def Let_def io_Copy_def rangeSet_simps w_Set_simps copy_chunks
      WriteHeader_wrote WriteHeader_def)

lemma relay_Body: "w_Body (relay w resp) = w_Body w @ concat (body_chunks (resp_Body resp))"
  by (simp add: relay_def Let_def io_Copy_def rangeSet_simps w_Set_simps copy_chunks
      WriteHeader_wrote WriteHeader_def)



section \<open>The outcomes of the handler\<close>

lemma canon_XFF: "CanonicalMIMEHeaderKey ''X-Forwarded-For'' = ''X-Forwarded-For''"
  by code_simp


lemma ServeHTTP_addr_error:
  "SplitHostPort (req_RemoteAddr r) = Inl err \<Longrightarrow>
   ServeHTTP Do p w r =
     \<lparr>ex_p = p, ex_w = internal w err,
       ex_r = r\<lparr>req_Host := url_Host (p_Host p),
              req_URL := (req_URL r)\<lparr>url_Host := url_Host (p_Host p), url_Scheme := url_Scheme (p_Host p)\<rparr>,
              req_RequestURI := []\<rparr>,
       ex_sent = []\<rparr>"
  by (simp add: ServeHTTP_def Let_def)

lemma ServeHTTP_upgrade_error:
  "SplitHostPort (req_RemoteAddr r) = Inr (ip, port) \<Longrightarrow> upgraded p r = Inl err \<Longrightarrow>
   ServeHTTP Do p w r = \<lparr>ex_p = p, ex_w = internal w err, ex_r = forwarded p r ip, ex_sent = []\<rparr>"
  by (auto simp add: ServeHTTP_def Let_def upgraded_def forwarded_def split: sum.splits if_splits)

lemma ServeHTTP_called:
  "SplitHostPort (req_RemoteAddr r) = Inr (ip, port) \<Longrightarrow> upgraded p r = Inr p' \<Longrightarrow>
   ServeHTTP Do p w r =
     \<lparr>ex_p = p',
       ex_w = (case Do (p_Client p') (forwarded p r ip) of Inl err \<Rightarrow> internal w err | Inr resp \<Rightarrow> relay w resp),
       ex_r = forwarded p r ip, ex_sent = [forwarded p r ip]\<rparr>"
  by (auto simp add: ServeHTTP_def Let_def upgraded_def forwarded_def split: sum.splits if_splits)

lemma ServeHTTP_sent:
  assumes "ex_sent (ServeHTTP Do p w r) = [q]"
  shows "\<exists>ip port p'. SplitHostPort (req_RemoteAddr r) = Inr (ip, port) \<and> upgraded p r = Inr p' \<and>
           q = forwarded p r ip \<and> ex_p (ServeHTTP Do p w r) = p' \<and> ex_r (ServeHTTP Do p w r) = q \<and>
           ex_w (ServeHTTP Do p w r) =
             (case Do (p_Client p') q of Inl err \<Rightarrow> internal w err | Inr resp \<Rightarrow> relay w resp)"
proof (cases "SplitHostPort (req_RemoteAddr r)")
  case (Inl err)
  then show ?thesis using assms by (simp add: ServeHTTP_addr_error)
next
  case (Inr hp)
  obtain ip port where hp: "hp = (ip, port)" by (cases hp)
  show ?thesis
  proof (cases "upgraded p r")
    case (Inl err)
    then show ?thesis using assms Inr hp by (simp add: ServeHTTP_upgrade_error)
  next
    case (Inr p')
    then show ?thesis using assms \<open>SplitHostPort (req_RemoteAddr r) = Inr hp\<close> hp
      by (simp add: ServeHTTP_called)
  qed
qed

section \<open>Well-formed remote addresses\<close>

lemma IndexByte_None: "IndexByte xs c = None \<longleftrightarrow> c \<notin> set xs"
  by (induction xs) auto

lemma IndexByte_first: "c \<notin> set xs \<Longrightarrow> IndexByte (xs @ c # ys) c = Some (length xs)"
  by (induction xs) auto

lemma LastIndexByte_last: "c \<notin> set ys \<Longrightarrow> LastIndexByte (xs @ c # ys) c = Some (length xs)"
  by (simp add: LastIndexByte_def IndexByte_first)

lemma SplitHostPort_host_port:
  assumes "set host \<inter> {CHR '':'', CHR ''['', CHR '']''} = {}"
    and "set port \<inter> {CHR '':'', CHR ''['', CHR '']''} = {}"
  shows "SplitHostPort (host @ CHR '':'' # port) = Inr (host, port)"
proof -
  have last: "LastIndexByte (host @ CHR '':'' # port) (CHR '':'') = Some (length host)"
    using assms(2) by (simp add: LastIndexByte_last)
  have nb: "take 1 (host @ CHR '':'' # port) \<noteq> ''[''"
    using assms(1) by (cases host) auto
  have tail: "splitTail (host @ CHR '':'' # port) host (length host) 0 0 = Inr (host, port)"
    using assms by (auto simp: splitTail_def IndexByte_None)
  have nc: "IndexByte (take (length host) (host @ CHR '':'' # port)) (CHR '':'') = None"
    using assms(1) by (simp add: IndexByte_None)
  show ?thesis
    unfolding SplitHostPort_def last option.case if_not_P [OF nb] nc
    by (simp add: tail)
qed

lemma SplitHostPort_bracket:
  assumes "set host \<inter> {CHR ''['', CHR '']''} = {}"
    and "set port \<inter> {CHR '':'', CHR ''['', CHR '']''} = {}"
  shows "SplitHostPort (CHR ''['' # host @ CHR '']'' # CHR '':'' # port) = Inr (host, port)"
proof -
  let ?s = "CHR ''['' # host @ CHR '']'' # CHR '':'' # port"
  have "LastIndexByte ((CHR ''['' # host @ [CHR '']'']) @ CHR '':'' # port) (CHR '':'') =
        Some (length (CHR ''['' # host @ [CHR '']'']))"
    using assms(2) by (intro LastIndexByte_last) auto
  then have last: "LastIndexByte ?s (CHR '':'') = Some (Suc (Suc (length host)))" by simp
  have first: "IndexByte (host @ CHR '']'' # CHR '':'' # port) (CHR '']'') = Some (length host)"
    using assms(1) by (intro IndexByte_first) auto
  have tail: "splitTail ?s host (Suc (Suc (length host))) (Suc 0) (Suc (Suc (length host))) = Inr (host, port)"
    using assms by (auto simp: splitTail_def IndexByte_None)
  show ?thesis
    by (simp add: SplitHostPort_def last first tail)
qed

section \<open>The samples\<close>


lemma sample_split: "SplitHostPort (req_RemoteAddr sample_request) = Inr (''192.0.2.1'', ''1234'')"
  by code_simp

lemma sample_split_h2: "SplitHostPort (req_RemoteAddr sample_request_h2) = Inr (''192.0.2.1'', ''1234'')"
  by code_simp

lemma sample_upgraded: "upgraded sample_proxy sample_request = Inr sample_proxy"
  by (simp add: upgraded_def sample_request_def)

lemma sample_upgraded_h2: "upgraded sample_proxy sample_request_h2 = Inr sample_proxy_h2"
  by (simp add: upgraded_def sample_request_h2_def sample_request_def sample_proxy_def
      sample_proxy_h2_def ConfigureTransport_def)

lemma sample_upgraded_twice:
  "upgraded sample_proxy_h2 sample_request_h2 = Inl (errorString ''protocol https already registered'')"
  by (simp add: upgraded_def sample_request_h2_def sample_request_def sample_proxy_def
      sample_proxy_h2_def ConfigureTransport_def)

lemmas sample_exchange = ServeHTTP_called [OF sample_split sample_upgraded]

lemmas sample_exchange_h2 = ServeHTTP_called [OF sample_split_h2 sample_upgraded_h2]


lemma internal_fresh:
  "\<not> w_wroteHeader w \<Longrightarrow>
   internal w err =
     w\<lparr>w_Code := 500, w_wroteHeader := True, w_snapHeader := w_HeaderMap w,
       w_Body := w_Body w @ Error err @ [CHR 0x0A],
       w_calls := w_calls w @ [WriteHeaderCall 500, WriteCall (Error err @ [CHR 0x0A])]\<rparr>"
  by (simp add: internal_def Fprintln_def Write_def WriteHeader_def StatusInternalServerError_def)

lemma ex_p_upgraded:
  "ex_p (ServeHTTP Do p w r) =
     (case SplitHostPort (req_RemoteAddr r) of
        Inl err \<Rightarrow> p
      | Inr hp \<Rightarrow> (case upgraded p r of Inl err \<Rightarrow> p | Inr p' \<Rightarrow> p'))"
  by (auto simp: ServeHTTP_addr_error ServeHTTP_upgrade_error ServeHTTP_called split: sum.splits)


lemma upgraded_http1: "req_ProtoMajor r \<noteq> 2 \<Longrightarrow> upgraded p r = Inr p"
  by (simp add: upgraded_def)


text \<open>A request that is not HTTP/2 leaves the proxy as it was, so that handling it
  again gives the same exchange.\<close>

lemma http1_exchange_repeatable:
  "req_ProtoMajor r \<noteq> 2 \<Longrightarrow> ServeHTTP Do (ex_p (ServeHTTP Do p w r)) w r = ServeHTTP Do p w r"
  by (auto simp: ex_p_upgraded upgraded_http1 split: sum.splits)



lemma fresh_recorder: "\<not> w_wroteHeader NewRecorder"
  by (simp add: NewRecorder_def)

section \<open>The claims\<close>











text \<open>
  Claim C5: after the handler, the request has the upstream's host (in \<open>Host\<close> and in
  \<open>URL.Host\<close>) and scheme and an empty \<open>RequestURI\<close>, and no other request is handed
  to the outbound call.
\<close>

theorem rewrite_target:
  "req_Host (ex_r (ServeHTTP Do p w r)) = url_Host (p_Host p) \<and>
   url_Host (req_URL (ex_r (ServeHTTP Do p w r))) = url_Host (p_Host p) \<and>
   url_Scheme (req_URL (ex_r (ServeHTTP Do p w r))) = url_Scheme (p_Host p) \<and>
   req_RequestURI (ex_r (ServeHTTP Do p w r)) = [] \<and>
   set (ex_sent (ServeHTTP Do p w r)) \<subseteq> {ex_r (ServeHTTP Do p w r)}"
  by (simp add: ServeHTTP_def Let_def split: sum.splits prod.splits)

text \<open>
  Claim C6: when \<open>net.SplitHostPort\<close> accepts the remote address and returns the host
  \<open>ip\<close>, the \<open>X-Forwarded-For\<close> header of the request is \<open>ip\<close> alone, whatever the
  header held before (\<open>SplitHostPort_host_port\<close> and \<open>SplitHostPort_bracket\<close> say what
  \<open>ip\<close> is for the addresses \<open>host:port\<close> and \<open>[host]:port\<close>).
\<close>

theorem forwarded_for_header:
  assumes "SplitHostPort (req_RemoteAddr r) = Inr (ip, port)"
  shows "map_of (req_Header (ex_r (ServeHTTP Do p w r))) ''X-Forwarded-For'' = Some [ip] \<and>
         set (ex_sent (ServeHTTP Do p w r)) \<subseteq> {ex_r (ServeHTTP Do p w r)}"
  using assms
  by (simp add: ServeHTTP_def Let_def Header_Set_def canon_XFF update_conv' split: sum.splits prod.splits)

theorem forwarded_for_header_witness:
  "SplitHostPort (req_RemoteAddr sample_request) = Inr (''192.0.2.1'', ''1234'') \<and>
   map_of (req_Header sample_request) ''X-Forwarded-For'' = Some [''10.0.0.7''] \<and>
   map_of (req_Header (ex_r (ServeHTTP sample_Do sample_proxy NewRecorder sample_request)))
     ''X-Forwarded-For'' = Some [''192.0.2.1''] \<and>
   ex_sent (ServeHTTP sample_Do sample_proxy NewRecorder sample_request) =
     [ex_r (ServeHTTP sample_Do sample_proxy NewRecorder sample_request)]"
  using forwarded_for_header [OF sample_split, of sample_Do sample_proxy NewRecorder] sample_split
  by (simp add: sample_exchange) (simp add: sample_request_def)




text \<open>
  Claim C8 (the same request handled again by the same proxy gives the same response)
  fails for an HTTP/2 request: the first exchange configures the transport, and the
  second one, finding it configured, answers 500 without calling the upstream.
\<close>

theorem second_http2_exchange_fails:
  "w_Code (ex_w (ServeHTTP sample_Do sample_proxy NewRecorder sample_request_h2)) = 201 \<and>
   w_Body (ex_w (ServeHTTP sample_Do sample_proxy NewRecorder sample_request_h2)) = ''Hello World!'' \<and>
   w_Code (ex_w (ServeHTTP sample_Do
     (ex_p (ServeHTTP sample_Do sample_proxy NewRecorder sample_request_h2)) NewRecorder
     sample_request_h2)) = 500 \<and>
   w_Body (ex_w (ServeHTTP sample_Do
     (ex_p (ServeHTTP sample_Do sample_proxy NewRecorder sample_request_h2)) NewRecorder
     sample_request_h2)) = ''protocol https already registered'' @ [CHR 0x0A] \<and>
   ex_sent (ServeHTTP sample_Do
     (ex_p (ServeHTTP sample_Do sample_proxy NewRecorder sample_request_h2)) NewRecorder
     sample_request_h2) = []"
  by (simp add: sample_exchange_h2 sample_Do_def relay_Code relay_Body fresh_recorder
      ServeHTTP_upgrade_error [OF sample_split_h2 sample_upgraded_twice] internal_fresh)
    (simp add: sample_response_def NewRecorder_def)




text \<open>
  Claim C10: the request handed to the outbound call is the inbound request with its
  host, the host and scheme of its URL, its request URI and its \<open>X-Forwarded-For\<close>
  header set as above; the method, the body, the protocol version, the rest of the URL
  and every other header are those of the inbound request.
\<close>

theorem forwarded_request_frame:
  assumes "ex_sent (ServeHTTP Do p w r) = [q]"
  shows "(\<exists>ip port. SplitHostPort (req_RemoteAddr r) = Inr (ip, port) \<and> q = forwarded p r ip) \<and>
         req_Method q = req_Method r \<and> req_Body q = req_Body r \<and>
         req_ProtoMajor q = req_ProtoMajor r \<and> req_RemoteAddr q = req_RemoteAddr r \<and>
         url_Path (req_URL q) = url_Path (req_URL r) \<and>
         url_RawQuery (req_URL q) = url_RawQuery (req_URL r) \<and>
         url_Opaque (req_URL q) = url_Opaque (req_URL r) \<and>
         url_Fragment (req_URL q) = url_Fragment (req_URL r) \<and>
         (\<forall>k. k \<noteq> ''X-Forwarded-For'' \<longrightarrow> map_of (req_Header q) k = map_of (req_Header r) k)"
proof -
  from ServeHTTP_sent [OF assms] obtain ip port where
    sp: "SplitHostPort (req_RemoteAddr r) = Inr (ip, port)" and q: "q = forwarded p r ip"
    by blast
  have "\<forall>k. k \<noteq> ''X-Forwarded-For'' \<longrightarrow> map_of (req_Header q) k = map_of (req_Header r) k"
    by (simp add: q forwarded_def Header_Set_def canon_XFF update_conv')
  then show ?thesis using sp q by (auto simp: forwarded_def)
qed

theorem forwarded_request_frame_witness:
  "ex_sent (ServeHTTP sample_Do sample_proxy NewRecorder sample_request) =
     [forwarded sample_proxy sample_request ''192.0.2.1''] \<and>
   req_Method (forwarded sample_proxy sample_request ''192.0.2.1'') = ''GET'' \<and>
   map_of (req_Header (forwarded sample_proxy sample_request ''192.0.2.1'')) ''Test-Header-1'' = Some [''1'']"
proof -
  have s: "ex_sent (ServeHTTP sample_Do sample_proxy NewRecorder sample_request) =
     [forwarded sample_proxy sample_request ''192.0.2.1'']"
    by (simp add: sample_exchange)
  show ?thesis using forwarded_request_frame [OF s] s
    by (simp add: sample_request_def)
qed

end
